theory Spec2Isabelle
  imports Main "HOL-Library.Word" "HOL-Library.Signed_Division"
begin

section \<open>Cache token distribution (internal/usage/token_distribution.go)\<close>

text \<open>
  Go's \<open>int64\<close> is a 64-bit two's complement integer: \<open>+\<close>, \<open>-\<close> and \<open>*\<close> wrap
  around, comparisons are signed, and \<open>/\<close> truncates towards zero and panics when the
  divisor is zero.
\<close>

type_synonym int64 = "64 word"

record CacheTokenDistribution =
  InputTokens :: int64
  CacheCreationInputTokens :: int64
  CacheReadInputTokens :: int64

text \<open>
  A Go composite literal leaves the fields it does not name at their zero value.
\<close>

definition zero_CacheTokenDistribution :: CacheTokenDistribution where
  "zero_CacheTokenDistribution =
     \<lparr>InputTokens = 0, CacheCreationInputTokens = 0, CacheReadInputTokens = 0\<rparr>"

subsection \<open>Constants\<close>

definition DistributionThreshold :: int64 where
  "DistributionThreshold = 100"

definition inputRatioPart :: int64 where
  "inputRatioPart = 1"

definition creationRatioPart :: int64 where
  "creationRatioPart = 2"

definition readRatioPart :: int64 where
  "readRatioPart = 25"

definition totalRatioParts :: int64 where
  "totalRatioParts = inputRatioPart + creationRatioPart + readRatioPart"

subsection \<open>Integer division of Go\<close>

text \<open>
  The quotient of two \<open>int64\<close> values, truncated towards zero. The only quotient that
  does not fit, \<open>-2^63 / -1\<close>, wraps to \<open>-2^63\<close>, which \<open>word_of_int\<close> gives.
\<close>

definition go_quo :: "int64 \<Rightarrow> int64 \<Rightarrow> int64" where
  "go_quo a b = word_of_int (sint a sdiv sint b)"

datatype error = DivideByZero

text \<open>The same division with the run-time panic of a zero divisor as a value.\<close>

definition go_quo_checked :: "int64 \<Rightarrow> int64 \<Rightarrow> error + int64" where
  "go_quo_checked a b = (if b = 0 then Inl DivideByZero else Inr (go_quo a b))"

subsection \<open>The three operations\<close>

definition DistributeCacheTokens :: "int64 \<Rightarrow> CacheTokenDistribution" where
  "DistributeCacheTokens totalInputTokens =
     (if totalInputTokens <s DistributionThreshold
      then zero_CacheTokenDistribution\<lparr>InputTokens := totalInputTokens\<rparr>
      else
        let input = go_quo (totalInputTokens * inputRatioPart) totalRatioParts;
            creation = go_quo (totalInputTokens * creationRatioPart) totalRatioParts;
            read = totalInputTokens - input - creation
        in \<lparr>InputTokens = input,
            CacheCreationInputTokens = creation,
            CacheReadInputTokens = read\<rparr>)"

text \<open>
  The same function with every division checked: a panic of the source would be an
  \<open>Inl\<close> here.
\<close>

definition DistributeCacheTokens_checked :: "int64 \<Rightarrow> error + CacheTokenDistribution" where
  "DistributeCacheTokens_checked totalInputTokens =
     (if totalInputTokens <s DistributionThreshold
      then Inr (zero_CacheTokenDistribution\<lparr>InputTokens := totalInputTokens\<rparr>)
      else
        case go_quo_checked (totalInputTokens * inputRatioPart) totalRatioParts of
          Inl e \<Rightarrow> Inl e
        | Inr input \<Rightarrow>
            (case go_quo_checked (totalInputTokens * creationRatioPart) totalRatioParts of
               Inl e \<Rightarrow> Inl e
             | Inr creation \<Rightarrow>
                 Inr \<lparr>InputTokens = input,
                      CacheCreationInputTokens = creation,
                      CacheReadInputTokens = totalInputTokens - input - creation\<rparr>))"

definition TotalInputTokens :: "CacheTokenDistribution \<Rightarrow> int64" where
  "TotalInputTokens d =
     InputTokens d + CacheCreationInputTokens d + CacheReadInputTokens d"

definition HasCacheTokens :: "CacheTokenDistribution \<Rightarrow> bool" where
  "HasCacheTokens d \<longleftrightarrow> 0 <s CacheCreationInputTokens d \<or> 0 <s CacheReadInputTokens d"

section \<open>Basic facts\<close>

lemma totalRatioParts_eq: "totalRatioParts = 28"
  by (simp add: totalRatioParts_def inputRatioPart_def creationRatioPart_def readRatioPart_def)

subsection \<open>Signed 64-bit arithmetic\<close>

text \<open>
  The signed value of an \<open>int64\<close> lies in \<open>[-2^63, 2^63)\<close>; a result in that range is
  not changed by the wrap-around, and one that left it by \<open>2^64\<close> comes back by as much.
\<close>

lemma sint_int64_lower: "- 9223372036854775808 \<le> sint (w :: int64)"
  using sint_ge [of w] by simp

lemma sint_int64_upper: "sint (w :: int64) < 9223372036854775808"
  using sint_lt [of w] by simp

lemma signed_take_bit_63_id:
  "- 9223372036854775808 \<le> k \<Longrightarrow> k < 9223372036854775808 \<Longrightarrow> signed_take_bit 63 (k :: int) = k"
  by (rule signed_take_bit_int_eq_self) simp_all

lemma signed_take_bit_63_shift:
  "signed_take_bit 63 (k - 18446744073709551616) = signed_take_bit 63 (k :: int)"
proof -
  have "(k - 18446744073709551616 + 9223372036854775808) mod 18446744073709551616
      = (k + 9223372036854775808) mod 18446744073709551616"
    using mod_diff_right_eq [of "k + 9223372036854775808" 18446744073709551616 18446744073709551616]
    by simp
  then show ?thesis
    by (simp add: signed_take_bit_eq_take_bit_shift take_bit_eq_mod)
qed

lemma sdiv_28_nonneg: "0 \<le> k \<Longrightarrow> (k :: int) sdiv 28 = k div 28"
  by (simp add: signed_divide_int_def sgn_if)

lemma sdiv_28_neg: "k < 0 \<Longrightarrow> (k :: int) sdiv 28 = - ((- k) div 28)"
  by (simp add: signed_divide_int_def sgn_if)

lemma sint_go_quo_28: "sint (go_quo a 28) = sint a sdiv 28"
proof -
  have "- 9223372036854775808 \<le> sint a sdiv 28 \<and> sint a sdiv 28 < 9223372036854775808"
  proof (cases "0 \<le> sint a")
    case True
    then show ?thesis
      using sint_int64_upper [of a] by (simp add: sdiv_28_nonneg) linarith
  next
    case False
    then show ?thesis
      using sint_int64_lower [of a] by (simp add: sdiv_28_neg) linarith
  qed
  then show ?thesis
    by (simp add: go_quo_def sint_sbintrunc' signed_take_bit_63_id)
qed

lemma sint_double_exact:
  "0 \<le> sint (t :: int64) \<Longrightarrow> 2 * sint t < 9223372036854775808 \<Longrightarrow> sint (t * 2) = 2 * sint t"
  by (simp add: sint_word_ariths signed_take_bit_63_id)

lemma sint_double_wrapped:
  assumes "9223372036854775808 \<le> 2 * sint (t :: int64)"
  shows "sint (t * 2) = 2 * sint t - 18446744073709551616"
proof -
  have "signed_take_bit 63 (2 * sint t - 18446744073709551616) = 2 * sint t - 18446744073709551616"
    using assms sint_int64_upper [of t] by (intro signed_take_bit_63_id) simp_all
  then show ?thesis
    by (simp add: sint_word_ariths mult.commute signed_take_bit_63_shift)
qed

subsection \<open>The two branches, and the signed value of each share\<close>

text \<open>
  Below the threshold the total is passed through; from the threshold on the shares are
  the two quotients by 28 and the rest. The product \<open>t * 1\<close> is \<open>t\<close>; the product
  \<open>t * 2\<close> wraps once \<open>t\<close> reaches \<open>2^62\<close>, and its quotient is then negative or zero.
\<close>

lemma DistributeCacheTokens_below:
  "t <s 100 \<Longrightarrow> DistributeCacheTokens t =
     \<lparr>InputTokens = t, CacheCreationInputTokens = 0, CacheReadInputTokens = 0\<rparr>"
  by (simp add: DistributeCacheTokens_def DistributionThreshold_def zero_CacheTokenDistribution_def)

lemma DistributeCacheTokens_ratio:
  "\<not> t <s 100 \<Longrightarrow> DistributeCacheTokens t =
     \<lparr>InputTokens = go_quo t 28,
      CacheCreationInputTokens = go_quo (t * 2) 28,
      CacheReadInputTokens = t - go_quo t 28 - go_quo (t * 2) 28\<rparr>"
  by (simp add: DistributeCacheTokens_def DistributionThreshold_def totalRatioParts_eq
      inputRatioPart_def creationRatioPart_def Let_def)

lemma sint_input_share: "0 \<le> sint t \<Longrightarrow> sint (go_quo t 28) = sint t div 28"
  by (simp add: sint_go_quo_28 sdiv_28_nonneg)

lemma sint_creation_share_exact:
  "0 \<le> sint t \<Longrightarrow> 2 * sint t < 9223372036854775808 \<Longrightarrow>
     sint (go_quo (t * 2) 28) = (2 * sint t) div 28"
  by (simp add: sint_go_quo_28 sint_double_exact sdiv_28_nonneg)

lemma sint_creation_share_wrapped:
  assumes "9223372036854775808 \<le> 2 * sint t"
  shows "sint (go_quo (t * 2) 28) = - ((18446744073709551616 - 2 * sint t) div 28)"
proof -
  have "2 * sint t - 18446744073709551616 < 0"
    using sint_int64_upper [of t] by simp
  then show ?thesis
    using assms by (simp add: sint_go_quo_28 sint_double_wrapped sdiv_28_neg)
qed

lemma sint_minus_input_share:
  assumes "0 \<le> sint t"
  shows "sint (t - go_quo t 28) = sint t - sint t div 28"
proof -
  have "- 9223372036854775808 \<le> sint t - sint t div 28"
    using assms by linarith
  moreover have "sint t - sint t div 28 < 9223372036854775808"
    using assms sint_int64_upper [of t] by linarith
  ultimately show ?thesis
    using assms by (simp add: sint_word_ariths sint_input_share signed_take_bit_63_id)
qed

lemma sint_read_share:
  assumes "0 \<le> sint t"
  shows "sint (t - go_quo t 28 - go_quo (t * 2) 28) =
           sint t - sint (go_quo t 28) - sint (go_quo (t * 2) 28)"
proof -
  let ?c = "sint (go_quo (t * 2) 28)"
  have up: "sint t < 9223372036854775808" by (rule sint_int64_upper)
  have "- 9223372036854775808 \<le> sint t - sint t div 28 - ?c
      \<and> sint t - sint t div 28 - ?c < 9223372036854775808"
  proof (cases "2 * sint t < 9223372036854775808")
    case True
    then have "?c = (2 * sint t) div 28"
      using assms by (simp add: sint_creation_share_exact)
    with assms up show ?thesis by simp linarith
  next
    case False
    then have "?c = - ((18446744073709551616 - 2 * sint t) div 28)"
      by (simp add: sint_creation_share_wrapped)
    with assms up False show ?thesis by simp linarith
  qed
  then have "signed_take_bit 63 (sint t - sint t div 28 - ?c) = sint t - sint t div 28 - ?c"
    by (simp add: signed_take_bit_63_id)
  moreover have "sint (t - go_quo t 28 - go_quo (t * 2) 28)
      = signed_take_bit 63 (sint (t - go_quo t 28) - ?c)"
    by (simp add: sint_word_ariths)
  ultimately show ?thesis
    using assms by (simp add: sint_minus_input_share sint_input_share)
qed

subsection \<open>The shares where the arithmetic is exact\<close>

text \<open>
  As long as \<open>2 * t\<close> fits in an \<open>int64\<close>, that is below \<open>2^62\<close>, the shares are the
  floors of \<open>t / 28\<close> and \<open>2 * t / 28\<close> and the rest, and none is negative. The read
  share is positive from the threshold on, whether the product wraps or not.
\<close>

lemma sint_read_share_positive:
  assumes "100 \<le> sint t"
  shows "0 < sint (t - go_quo t 28 - go_quo (t * 2) 28)"
proof (cases "2 * sint t < 9223372036854775808")
  case True
  with assms have "sint (go_quo (t * 2) 28) = (2 * sint t) div 28"
    by (simp add: sint_creation_share_exact)
  with assms show ?thesis
    by (simp add: sint_read_share sint_input_share)
next
  case False
  then have "sint (go_quo (t * 2) 28) = - ((18446744073709551616 - 2 * sint t) div 28)"
    by (simp add: sint_creation_share_wrapped)
  with assms sint_int64_upper [of t] show ?thesis
    by (simp add: sint_read_share sint_input_share)
qed

lemma DistributeCacheTokens_shares_exact:
  assumes "100 \<le>s t" and "2 * sint t < 9223372036854775808"
  shows "sint (InputTokens (DistributeCacheTokens t)) = sint t div 28"
    and "sint (CacheCreationInputTokens (DistributeCacheTokens t)) = (2 * sint t) div 28"
    and "sint (CacheReadInputTokens (DistributeCacheTokens t))
           = sint t - sint t div 28 - (2 * sint t) div 28"
proof -
  have ge: "100 \<le> sint t" and ratio: "\<not> t <s 100"
    using assms(1) by (simp_all add: word_sle_eq word_sless_alt)
  then have nn: "0 \<le> sint t" by simp
  show "sint (InputTokens (DistributeCacheTokens t)) = sint t div 28"
    using ratio nn by (simp add: DistributeCacheTokens_ratio sint_input_share)
  show "sint (CacheCreationInputTokens (DistributeCacheTokens t)) = (2 * sint t) div 28"
    using ratio nn assms(2) by (simp add: DistributeCacheTokens_ratio sint_creation_share_exact)
  show "sint (CacheReadInputTokens (DistributeCacheTokens t))
           = sint t - sint t div 28 - (2 * sint t) div 28"
    using ratio nn assms(2)
    by (simp add: DistributeCacheTokens_ratio sint_read_share sint_input_share
        sint_creation_share_exact)
qed

lemma DistributeCacheTokens_input_share_floor:
  "100 \<le>s t \<Longrightarrow> sint (InputTokens (DistributeCacheTokens t)) = sint t div 28"
  by (simp add: word_sle_eq word_sless_alt DistributeCacheTokens_ratio sint_input_share)

lemma DistributeCacheTokens_nonneg_exact:
  assumes "0 \<le>s t" and "2 * sint t < 9223372036854775808"
  shows "0 \<le>s InputTokens (DistributeCacheTokens t)
       \<and> 0 \<le>s CacheCreationInputTokens (DistributeCacheTokens t)
       \<and> 0 \<le>s CacheReadInputTokens (DistributeCacheTokens t)"
proof (cases "t <s 100")
  case True
  with assms(1) show ?thesis by (simp add: DistributeCacheTokens_below)
next
  case False
  then have "100 \<le>s t" by (simp add: word_sle_eq word_sless_alt)
  from DistributeCacheTokens_shares_exact [OF this assms(2)] assms(1) show ?thesis
    by (simp add: word_sle_eq) linarith
qed

section \<open>The properties of the specification\<close>

text \<open>
  Claim C1. For every non-negative total \<open>t\<close>, the three fields of
  \<open>DistributeCacheTokens t\<close> sum exactly to \<open>t\<close>, in the branch below the threshold and
  in the ratio branch: the sum of their signed values is the signed value of \<open>t\<close> (no
  wrap-around hides a difference), and so is the \<open>int64\<close> sum that Go computes.
\<close>

theorem DistributeCacheTokens_sum:
  assumes "0 \<le>s t"
  shows "sint (InputTokens (DistributeCacheTokens t))
           + sint (CacheCreationInputTokens (DistributeCacheTokens t))
           + sint (CacheReadInputTokens (DistributeCacheTokens t)) = sint t
       \<and> InputTokens (DistributeCacheTokens t)
           + CacheCreationInputTokens (DistributeCacheTokens t)
           + CacheReadInputTokens (DistributeCacheTokens t) = t"
proof (cases "t <s 100")
  case True
  then show ?thesis by (simp add: DistributeCacheTokens_below)
next
  case False
  moreover have "0 \<le> sint t"
    using assms by (simp add: word_sle_eq)
  ultimately show ?thesis
    by (simp add: DistributeCacheTokens_ratio sint_read_share)
qed

theorem DistributeCacheTokens_sum_witness:
  "(0 :: int64) \<le>s 1000
     \<and> sint (InputTokens (DistributeCacheTokens 1000))
           + sint (CacheCreationInputTokens (DistributeCacheTokens 1000))
           + sint (CacheReadInputTokens (DistributeCacheTokens 1000)) = 1000
     \<and> InputTokens (DistributeCacheTokens 1000)
           + CacheCreationInputTokens (DistributeCacheTokens 1000)
           + CacheReadInputTokens (DistributeCacheTokens 1000) = 1000"
proof -
  have h: "(0 :: int64) \<le>s 1000" by (simp add: word_sle_eq)
  show ?thesis using h DistributeCacheTokens_sum [OF h] by simp
qed

text \<open>
  Claim C2. From the threshold on, \<open>InputTokens\<close> is \<open>floor (t / 28)\<close> and
  \<open>CacheCreationInputTokens\<close> is \<open>floor (2 * t / 28)\<close>. The first holds for every
  \<open>int64\<close> (lemma \<open>DistributeCacheTokens_input_share_floor\<close>), the second as long as
  \<open>2 * t\<close> fits (lemma \<open>DistributeCacheTokens_shares_exact\<close>). At \<open>t = 2^62\<close> the product
  \<open>totalInputTokens * creationRatioPart\<close> wraps to \<open>-2^63\<close> and the share is
  \<open>-329406144173384850\<close>, where \<open>floor (2 * t / 28)\<close> is \<open>329406144173384850\<close>.
\<close>

theorem DistributeCacheTokens_creation_overflow:
  "(100 :: int64) \<le>s 4611686018427387904
     \<and> sint (InputTokens (DistributeCacheTokens 4611686018427387904)) = 164703072086692425
     \<and> sint (CacheCreationInputTokens (DistributeCacheTokens 4611686018427387904))
         = - 329406144173384850
     \<and> (sint (4611686018427387904 :: int64) * 2) div 28 = 329406144173384850"
  by (simp add: DistributeCacheTokens_ratio go_quo_def signed_divide_int_def)

text \<open>
  Claim C3. For every non-negative \<open>t\<close> below 100, \<open>DistributeCacheTokens t\<close> is the
  passthrough distribution: \<open>InputTokens = t\<close> and both cache fields 0. In particular
  \<open>DistributeCacheTokens 0\<close> has all three fields 0.
\<close>

theorem DistributeCacheTokens_passthrough:
  "0 \<le>s t \<Longrightarrow> t <s 100 \<Longrightarrow>
     DistributeCacheTokens t =
       \<lparr>InputTokens = t, CacheCreationInputTokens = 0, CacheReadInputTokens = 0\<rparr>
     \<and> DistributeCacheTokens 0 =
       \<lparr>InputTokens = 0, CacheCreationInputTokens = 0, CacheReadInputTokens = 0\<rparr>"
  by (simp add: DistributeCacheTokens_below)

theorem DistributeCacheTokens_passthrough_witness:
  "(0 :: int64) \<le>s 42 \<and> (42 :: int64) <s 100
     \<and> DistributeCacheTokens 42 =
       \<lparr>InputTokens = 42, CacheCreationInputTokens = 0, CacheReadInputTokens = 0\<rparr>
     \<and> DistributeCacheTokens 0 =
       \<lparr>InputTokens = 0, CacheCreationInputTokens = 0, CacheReadInputTokens = 0\<rparr>"
proof -
  have h1: "(0 :: int64) \<le>s 42" and h2: "(42 :: int64) <s 100"
    by (simp_all add: word_sle_eq)
  show ?thesis using h1 h2 DistributeCacheTokens_passthrough [OF h1 h2] by simp
qed

text \<open>
  Claim C4. At the boundary: 99 is below the threshold and is passed through; 100 is not
  below the threshold and takes the ratio branch, which gives \<open>3\<close>, \<open>7\<close> and \<open>90\<close>, not
  the passthrough distribution of 100.
\<close>

theorem DistributeCacheTokens_threshold_boundary:
  "(99 :: int64) <s DistributionThreshold
     \<and> DistributeCacheTokens 99 =
         \<lparr>InputTokens = 99, CacheCreationInputTokens = 0, CacheReadInputTokens = 0\<rparr>
     \<and> \<not> (100 :: int64) <s DistributionThreshold
     \<and> DistributeCacheTokens 100 =
         \<lparr>InputTokens = 3, CacheCreationInputTokens = 7, CacheReadInputTokens = 90\<rparr>
     \<and> DistributeCacheTokens 100 \<noteq>
         \<lparr>InputTokens = 100, CacheCreationInputTokens = 0, CacheReadInputTokens = 0\<rparr>"
  by (simp add: DistributeCacheTokens_below DistributeCacheTokens_ratio DistributionThreshold_def
      go_quo_def signed_divide_int_def)

text \<open>
  Claim C5. \<open>DistributeCacheTokens 1000\<close> is exactly \<open>35\<close>, \<open>71\<close> and \<open>894\<close>.
\<close>

theorem DistributeCacheTokens_1000:
  "DistributeCacheTokens 1000 =
     \<lparr>InputTokens = 35, CacheCreationInputTokens = 71, CacheReadInputTokens = 894\<rparr>"
  by (simp add: DistributeCacheTokens_ratio go_quo_def signed_divide_int_def)

text \<open>
  Claim C6. Round trip: \<open>TotalInputTokens (DistributeCacheTokens t) = t\<close>. It holds for
  every \<open>int64\<close>, the non-negative ones among them.
\<close>

theorem TotalInputTokens_DistributeCacheTokens:
  "TotalInputTokens (DistributeCacheTokens t) = t"
  by (cases "t <s 100")
    (simp_all add: TotalInputTokens_def DistributeCacheTokens_below DistributeCacheTokens_ratio)

text \<open>
  Claim C7. \<open>HasCacheTokens d\<close> is true if and only if \<open>CacheCreationInputTokens d\<close> or
  \<open>CacheReadInputTokens d\<close> is greater than 0 (as signed values); hence it is false on
  \<open>DistributeCacheTokens t\<close> for every non-negative \<open>t\<close> below 100, and for \<open>t = 0\<close>.
\<close>

theorem HasCacheTokens_iff:
  "(HasCacheTokens d \<longleftrightarrow>
      0 < sint (CacheCreationInputTokens d) \<or> 0 < sint (CacheReadInputTokens d))
   \<and> (0 \<le>s t \<and> t <s 100 \<longrightarrow> \<not> HasCacheTokens (DistributeCacheTokens t))
   \<and> \<not> HasCacheTokens (DistributeCacheTokens 0)"
  by (simp add: HasCacheTokens_def word_sless_alt DistributeCacheTokens_below)

theorem HasCacheTokens_iff_witness:
  "(0 :: int64) \<le>s 42 \<and> (42 :: int64) <s 100
   \<and> \<not> HasCacheTokens (DistributeCacheTokens 42)
   \<and> HasCacheTokens \<lparr>InputTokens = 1, CacheCreationInputTokens = 0, CacheReadInputTokens = 5\<rparr>
   \<and> HasCacheTokens \<lparr>InputTokens = 1, CacheCreationInputTokens = 5, CacheReadInputTokens = - 2\<rparr>
   \<and> \<not> HasCacheTokens \<lparr>InputTokens = 1, CacheCreationInputTokens = 0, CacheReadInputTokens = - 2\<rparr>"
  using HasCacheTokens_iff [of "\<lparr>InputTokens = 1, CacheCreationInputTokens = 0, CacheReadInputTokens = 5\<rparr>" 42]
    HasCacheTokens_iff [of "\<lparr>InputTokens = 1, CacheCreationInputTokens = 5, CacheReadInputTokens = - 2\<rparr>" 42]
    HasCacheTokens_iff [of "\<lparr>InputTokens = 1, CacheCreationInputTokens = 0, CacheReadInputTokens = - 2\<rparr>" 42]
  by (simp add: word_sle_eq)

text \<open>
  Claim C8. For a non-negative total every field is non-negative. This holds as long as
  \<open>2 * t\<close> fits in an \<open>int64\<close> (lemma \<open>DistributeCacheTokens_nonneg_exact\<close>). At
  \<open>t = 2^62\<close>, a non-negative \<open>int64\<close>, the product \<open>totalInputTokens * creationRatioPart\<close>
  wraps and \<open>CacheCreationInputTokens\<close> is negative.
\<close>

theorem DistributeCacheTokens_creation_negative:
  "(0 :: int64) \<le>s 4611686018427387904
     \<and> CacheCreationInputTokens (DistributeCacheTokens 4611686018427387904) <s 0
     \<and> DistributeCacheTokens 4611686018427387904 =
         \<lparr>InputTokens = 164703072086692425,
          CacheCreationInputTokens = - 329406144173384850,
          CacheReadInputTokens = 4776389090514080329\<rparr>"
  by (simp add: DistributeCacheTokens_ratio go_quo_def signed_divide_int_def
      word_sle_eq word_sless_alt)

text \<open>
  Claim C9. \<open>DistributeCacheTokens\<close> always returns a distribution and cannot fail: the
  only operation of its body that can panic is the division, and the divisor is the
  constant 28. So the function with its divisions checked never takes an error branch, and
  returns what the unchecked one computes, for every \<open>int64\<close>. The result depends on the
  argument alone: there is no state to read or change.
\<close>

theorem DistributeCacheTokens_checked_total:
  "DistributeCacheTokens_checked t = Inr (DistributeCacheTokens t)"
  by (simp add: DistributeCacheTokens_checked_def DistributeCacheTokens_def go_quo_checked_def
      totalRatioParts_eq Let_def)

text \<open>
  Claim C10. For every \<open>t\<close> from 100 on for which the arithmetic is exact (\<open>2 * t\<close> fits in
  an \<open>int64\<close>), the fields are at least \<open>3\<close>, \<open>7\<close> and \<open>90\<close>; and \<open>HasCacheTokens\<close> of
  \<open>DistributeCacheTokens t\<close> is true exactly when \<open>t\<close> is at least 100. The second part
  holds for every \<open>int64\<close>: where the product wraps, the read share is still positive.
\<close>

theorem HasCacheTokens_DistributeCacheTokens:
  "(100 \<le>s t \<and> 2 * sint t < 9223372036854775808 \<longrightarrow>
      3 \<le>s InputTokens (DistributeCacheTokens t)
      \<and> 7 \<le>s CacheCreationInputTokens (DistributeCacheTokens t)
      \<and> 90 \<le>s CacheReadInputTokens (DistributeCacheTokens t))
   \<and> (HasCacheTokens (DistributeCacheTokens t) \<longleftrightarrow> 100 \<le>s t)"
proof (intro conjI impI)
  assume h: "100 \<le>s t \<and> 2 * sint t < 9223372036854775808"
  then have h1: "100 \<le>s t" and h2: "2 * sint t < 9223372036854775808" by simp_all
  from h1 have ge: "100 \<le> sint t" by (simp add: word_sle_eq)
  show "3 \<le>s InputTokens (DistributeCacheTokens t)"
    using DistributeCacheTokens_shares_exact(1) [OF h1 h2] ge
    by (simp add: word_sle_eq)
  show "7 \<le>s CacheCreationInputTokens (DistributeCacheTokens t)"
    using DistributeCacheTokens_shares_exact(2) [OF h1 h2] ge
    by (simp add: word_sle_eq)
  show "90 \<le>s CacheReadInputTokens (DistributeCacheTokens t)"
    using DistributeCacheTokens_shares_exact(3) [OF h1 h2] ge
    by (simp add: word_sle_eq)
next
  show "HasCacheTokens (DistributeCacheTokens t) \<longleftrightarrow> 100 \<le>s t"
  proof (cases "t <s 100")
    case True
    then show ?thesis
      by (simp add: HasCacheTokens_def DistributeCacheTokens_below word_sle_eq word_sless_alt)
  next
    case False
    then have ge: "100 \<le> sint t" by (simp add: word_sless_alt)
    from sint_read_share_positive [OF this] False ge show ?thesis
      by (simp add: HasCacheTokens_def DistributeCacheTokens_ratio word_sle_eq word_sless_alt)
  qed
qed

theorem HasCacheTokens_DistributeCacheTokens_witness:
  "(100 :: int64) \<le>s 2800 \<and> 2 * sint (2800 :: int64) < 9223372036854775808
   \<and> 3 \<le>s InputTokens (DistributeCacheTokens 2800)
   \<and> 7 \<le>s CacheCreationInputTokens (DistributeCacheTokens 2800)
   \<and> 90 \<le>s CacheReadInputTokens (DistributeCacheTokens 2800)
   \<and> HasCacheTokens (DistributeCacheTokens 2800)"
  using HasCacheTokens_DistributeCacheTokens [of 2800] by simp

end
